theory Spec2Isabelle
  imports Complex_Main "HOL-Library.Sublist" "HOL-Library.AList"
begin

section \<open>Bernoulli multi-armed bandit surrogate and acquisition dispatch\<close>

text \<open>
  A shallow embedding of \<^verbatim>\<open>baybe/surrogates/multi_armed_bandit.py\<close> and
  \<^verbatim>\<open>baybe/acquisition/base.py\<close>.

  Conventions of the embedding:
  \<^item> A method that may raise returns a \<open>result\<close>: \<open>Ok v\<close> for a normal return,
    \<open>Raise e\<close> for an exception. A method that mutates \<open>self\<close> returns the pair of
    its result and the object after the call, also when it raises.
  \<^item> Floating-point tensor entries are exact rationals: the rounding of
    floating-point arithmetic and not-a-number entries are outside the model.
  \<^item> The entries of a \<^verbatim>\<open>torch.int\<close> tensor are 32-bit integers: they are
    integers of HOL with the wrap-around to the range from \<open>- 2 ^ 31\<close> to
    \<open>2 ^ 31 - 1\<close> written out where a value is converted.
  \<^item> A two-dimensional tensor is the list of its rows together with its number of
    columns (a tensor with no rows still has a width).
  \<^item> Python names with a leading underscore carry the prefix \<open>priv_\<close>.
\<close>

subsection \<open>Exceptions and results\<close>

datatype error =
    ModelNotTrainedError
  | IncompatibleSearchSpaceError
  | IndexError
  | RuntimeError
  | ValueError
  | TypeError
  | AttributeError
  | KeyError

datatype 'a result = Ok 'a | Raise error

subsection \<open>Tensors\<close>

record tensor2 =
  n_cols :: nat
  rows :: "rat list list"

definition wf_tensor2 :: "tensor2 \<Rightarrow> bool" where
  "wf_tensor2 t = list_all (\<lambda>r. length r = n_cols t) (rows t)"

text \<open>
  Broadcasting of a binary operation along one dimension, as torch does it: the sizes
  agree, or one of them is 1 and that operand is repeated; anything else raises.
\<close>

definition broadcast2 :: "('a \<Rightarrow> 'b \<Rightarrow> 'c) \<Rightarrow> 'a list \<Rightarrow> 'b list \<Rightarrow> 'c list result" where
  "broadcast2 f xs ys =
     (if length xs = length ys then Ok (map2 f xs ys)
      else if length ys = 1 then Ok (map (\<lambda>x. f x (hd ys)) xs)
      else if length xs = 1 then Ok (map (f (hd xs)) ys)
      else Raise RuntimeError)"

text \<open>\<^verbatim>\<open>train_y == float(v)\<close> on the outcome column: a boolean column, 1 for true.\<close>

definition eq_scalar :: "rat list \<Rightarrow> rat \<Rightarrow> rat list" where
  "eq_scalar ys v = map (\<lambda>y. if y = v then 1 else 0) ys"

text \<open>
  \<^verbatim>\<open>train_x * mask\<close> for \<open>train_x\<close> of shape \<open>(n, N)\<close> and a mask of shape
  \<open>(m, 1)\<close>: the rows are broadcast, and inside a row every entry is multiplied by the
  single entry of the mask's row.
\<close>

definition mul_mask :: "tensor2 \<Rightarrow> rat list \<Rightarrow> tensor2 result" where
  "mul_mask x m =
     (case broadcast2 (\<lambda>r b. map (\<lambda>v. v * b) r) (rows x) m of
        Raise e \<Rightarrow> Raise e
      | Ok rs \<Rightarrow> Ok (x\<lparr>rows := rs\<rparr>))"

text \<open>\<^verbatim>\<open>t.sum(axis=0)\<close>: the column sums; a tensor without rows sums to zeros.\<close>

definition sum_axis0 :: "tensor2 \<Rightarrow> rat list" where
  "sum_axis0 t = map (\<lambda>j. sum_list (map (\<lambda>r. r ! j) (rows t))) [0..<n_cols t]"

text \<open>The value of the low 32 bits of an integer, read in two's complement.\<close>

definition int32 :: "int \<Rightarrow> int" where
  "int32 z = (z + 2 ^ 31) mod 2 ^ 32 - 2 ^ 31"

text \<open>
  \<^verbatim>\<open>.to(torch.int)\<close>: the conversion truncates towards zero and stores a 32-bit
  integer; a value beyond its range wraps around (\<open>2 ^ 31\<close> is stored as
  \<open>- 2 ^ 31\<close>).
\<close>

definition to_int :: "rat \<Rightarrow> int" where
  "to_int q = int32 (if 0 \<le> q then \<lfloor>q\<rfloor> else \<lceil>q\<rceil>)"

subsection \<open>Search space and prior\<close>

text \<open>
  Modelled from the spec: the parameter classes and the search space
  (\<^verbatim>\<open>baybe/parameters\<close>, \<^verbatim>\<open>baybe/searchspace/core.py\<close>) are not part of the
  sources at hand. A search space exposes its parameter list; a categorical parameter
  carries its encoding. \<open>TaskParameter\<close> is kept apart from \<open>CategoricalParameter\<close>:
  it never uses the one-hot encoding.
\<close>

datatype categorical_encoding = OHE | INT

datatype parameter =
    CategoricalParameter string categorical_encoding
  | TaskParameter string
  | NumericalDiscreteParameter string
  | NumericalContinuousParameter string

record searchspace =
  parameters :: "parameter list"

text \<open>
  Modelled from the spec: \<^verbatim>\<open>BetaPrior\<close> (\<^verbatim>\<open>baybe/priors\<close>) is not part of the
  sources at hand. It holds the two shape parameters, and \<^verbatim>\<open>to_torch\<close> returns
  them as a tensor of shape \<open>(2,)\<close>, the pseudo-count of wins first.
\<close>

record beta_prior =
  alpha :: rat
  beta :: rat

definition to_torch :: "beta_prior \<Rightarrow> rat list" where
  "to_torch p = [alpha p, beta p]"

definition valid_prior :: "beta_prior \<Rightarrow> bool" where
  "valid_prior p = (0 < alpha p \<and> 0 < beta p)"

subsection \<open>The surrogate\<close>

record surrogate =
  prior :: beta_prior
  priv_searchspace :: "searchspace option"
  priv_win_lose_counts :: "int list list option"

text \<open>
  A freshly constructed surrogate: \<^verbatim>\<open>_win_lose_counts\<close> has \<^verbatim>\<open>init=False\<close> and
  the default \<^verbatim>\<open>None\<close>; the search space is set by the base class when fitting.
\<close>

definition new_surrogate :: "beta_prior \<Rightarrow> surrogate" where
  "new_surrogate p = \<lparr>prior = p, priv_searchspace = None, priv_win_lose_counts = None\<rparr>"

definition default_prior :: beta_prior where
  "default_prior = \<lparr>alpha = 1, beta = 1\<rparr>"

text \<open>
  The \<^verbatim>\<open>match\<close> statement of \<^verbatim>\<open>_fit\<close>: the parameter sequence has exactly one
  element, a categorical parameter whose encoding is \<open>OHE\<close>.
\<close>

fun single_ohe_parameter :: "parameter list \<Rightarrow> bool" where
  "single_ohe_parameter [CategoricalParameter nm OHE] = True"
| "single_ohe_parameter ps = False"

definition searchspace_matches :: "searchspace option \<Rightarrow> bool" where
  "searchspace_matches so =
     (case so of None \<Rightarrow> False | Some ss \<Rightarrow> single_ohe_parameter (parameters ss))"

text \<open>
  \<^verbatim>\<open>_fit\<close>. The two sentinel values \<^verbatim>\<open>_POSITIVE_VALUE_COMP\<close> and
  \<^verbatim>\<open>_NEGATIVE_VALUE_COMP\<close> of \<^verbatim>\<open>baybe/targets/binary.py\<close> are parameters;
  \<open>train_y\<close> is the outcome column, of shape \<open>(m, 1)\<close>.
\<close>

definition priv_fit ::
  "rat \<Rightarrow> rat \<Rightarrow> tensor2 \<Rightarrow> rat list \<Rightarrow> surrogate \<Rightarrow> unit result \<times> surrogate" where
  "priv_fit positive_value_comp negative_value_comp train_x train_y self =
     (if \<not> searchspace_matches (priv_searchspace self)
      then (Raise IncompatibleSearchSpaceError, self)
      else
        (case mul_mask train_x (eq_scalar train_y positive_value_comp) of
           Raise e \<Rightarrow> (Raise e, self)
         | Ok xw \<Rightarrow>
            (case mul_mask train_x (eq_scalar train_y negative_value_comp) of
               Raise e \<Rightarrow> (Raise e, self)
             | Ok xl \<Rightarrow>
                (let wins = sum_axis0 xw; losses = sum_axis0 xl
                 in (Ok (),
                     self\<lparr>priv_win_lose_counts :=
                            Some [map to_int wins, map to_int losses]\<rparr>)))))"

text \<open>
  \<^verbatim>\<open>_posterior_beta_parameters\<close>: the counts, of shape \<open>(2, N)\<close>, plus the prior
  as a column of shape \<open>(2, 1)\<close>.
\<close>

definition priv_posterior_beta_parameters :: "surrogate \<Rightarrow> rat list list result" where
  "priv_posterior_beta_parameters self =
     (case priv_win_lose_counts self of
        None \<Rightarrow> Raise ModelNotTrainedError
      | Some counts \<Rightarrow>
          broadcast2 (\<lambda>row p. map (\<lambda>c. of_int c + p) row) counts (to_torch (prior self)))"

text \<open>
  The distribution objects of the external library. \<^verbatim>\<open>Beta(c1, c0)\<close> broadcasts
  its two arguments against each other and checks them when it is constructed: the
  check raises \<open>RuntimeError\<close> on tensors without entries and \<open>ValueError\<close>
  unless all concentrations are positive.
\<close>

datatype beta_distribution =
  Beta (concentration1: "rat list") (concentration0: "rat list")

datatype torch_posterior = TorchPosterior beta_distribution

definition Beta_init :: "rat list \<Rightarrow> rat list \<Rightarrow> beta_distribution result" where
  "Beta_init c1 c0 =
     (case broadcast2 Pair c1 c0 of
        Raise e \<Rightarrow> Raise e
      | Ok cs \<Rightarrow>
          if cs = [] then Raise RuntimeError
          else if list_all (\<lambda>(a, b). 0 < a \<and> 0 < b) cs
          then Ok (Beta (map fst cs) (map snd cs))
          else Raise ValueError)"

text \<open>
  \<^verbatim>\<open>maximum_a_posteriori_per_arm\<close>. The posterior parameters are unpacked along
  their first dimension into the two arguments of \<^verbatim>\<open>Beta\<close>. The mode of the
  distribution is computed by the external library (\<^verbatim>\<open>torch.distributions\<close>) and
  is a parameter here.
\<close>

definition maximum_a_posteriori_per_arm ::
  "(beta_distribution \<Rightarrow> 'm) \<Rightarrow> surrogate \<Rightarrow> 'm result" where
  "maximum_a_posteriori_per_arm mode self =
     (case priv_posterior_beta_parameters self of
        Raise e \<Rightarrow> Raise e
      | Ok params \<Rightarrow>
         (case params of
            [c1, c0] \<Rightarrow>
              (case Beta_init c1 c0 of Raise e \<Rightarrow> Raise e | Ok d \<Rightarrow> Ok (mode d))
          | _ \<Rightarrow> Raise TypeError))"

text \<open>
  \<^verbatim>\<open>candidates.argmax(-1)\<close>: for every row the index of its first maximal entry;
  reducing over a dimension of size zero raises.
\<close>

definition argmax_row :: "rat list \<Rightarrow> nat" where
  "argmax_row r = length (takeWhile (\<lambda>v. v \<noteq> Max (set r)) r)"

definition argmax_last :: "tensor2 \<Rightarrow> nat list result" where
  "argmax_last t = (if n_cols t = 0 then Raise IndexError else Ok (map argmax_row (rows t)))"

text \<open>\<^verbatim>\<open>.T\<close> of a tensor given by its rows.\<close>

definition transpose_rows :: "'a list list \<Rightarrow> 'a list list" where
  "transpose_rows ps =
     (case ps of [] \<Rightarrow> [] | r # _ \<Rightarrow> map (\<lambda>j. map (\<lambda>row. row ! j) ps) [0..<length r])"

text \<open>\<^verbatim>\<open>t[idx]\<close> with a tensor of row indices: an index out of range raises.\<close>

definition index_rows :: "'a list \<Rightarrow> nat list \<Rightarrow> 'a list result" where
  "index_rows t idx =
     (if list_all (\<lambda>i. i < length t) idx then Ok (map (\<lambda>i. t ! i) idx) else Raise IndexError)"

text \<open>\<^verbatim>\<open>t.split(1, -1)\<close> of a tensor of width \<open>w\<close>: its \<open>w\<close> columns.\<close>

definition split_cols :: "nat \<Rightarrow> 'a list list \<Rightarrow> 'a list list" where
  "split_cols w t = map (\<lambda>k. map (\<lambda>r. r ! k) t) [0..<w]"

text \<open>
  \<^verbatim>\<open>_posterior\<close>, for candidates of shape \<open>(n, W)\<close>. The posterior parameters
  are evaluated first, then the argmax of the candidates, then the indexing of the
  transposed parameters; the columns of the selection are the two arguments of
  \<^verbatim>\<open>Beta\<close> (their shape \<open>(n, 1)\<close> is flattened to a list). The method does not
  assign to \<open>self\<close>.
\<close>

definition priv_posterior :: "surrogate \<Rightarrow> tensor2 \<Rightarrow> torch_posterior result" where
  "priv_posterior self candidates =
     (case priv_posterior_beta_parameters self of
        Raise e \<Rightarrow> Raise e
      | Ok params \<Rightarrow>
         (case argmax_last candidates of
            Raise e \<Rightarrow> Raise e
          | Ok idx \<Rightarrow>
             (case index_rows (transpose_rows params) idx of
                Raise e \<Rightarrow> Raise e
              | Ok beta_params_for_candidates \<Rightarrow>
                 (case split_cols (length params) beta_params_for_candidates of
                    [c1, c0] \<Rightarrow>
                      (case Beta_init c1 c0 of
                         Raise e \<Rightarrow> Raise e
                       | Ok d \<Rightarrow> Ok (TorchPosterior d))
                  | _ \<Rightarrow> Raise TypeError))))"

subsection \<open>Counting rows, in the words of the specification\<close>

text \<open>A row is one-hot: zeros and ones, with exactly one 1.\<close>

definition one_hot :: "rat list \<Rightarrow> bool" where
  "one_hot r = (list_all (\<lambda>v. v = 0 \<or> v = 1) r \<and> count_list r 1 = 1)"



text \<open>A valid training table for \<open>_fit\<close>.\<close>

definition valid_training :: "rat \<Rightarrow> rat \<Rightarrow> tensor2 \<Rightarrow> rat list \<Rightarrow> bool" where
  "valid_training pos neg train_x train_y =
     (wf_tensor2 train_x \<and> list_all one_hot (rows train_x) \<and>
      length train_y = length (rows train_x) \<and>
      list_all (\<lambda>y. y = pos \<or> y = neg) train_y)"


subsection \<open>Acquisition functions\<close>

text \<open>Python values that occur in configurations and keyword arguments.\<close>

datatype pyval = PyFloat rat | PyNaN | PyStr string | PyBool bool | PyNone

text \<open>
  An acquisition function object: the name of its class, the class-level
  \<^verbatim>\<open>_abbreviation\<close>, and its attributes (what \<^verbatim>\<open>hasattr\<close> and
  \<^verbatim>\<open>getattr\<close> see).
\<close>

record acquisition_function =
  class_name :: string
  priv_abbreviation :: string
  attributes :: "(string \<times> pyval) list"

definition is_mc :: "acquisition_function \<Rightarrow> bool" where
  "is_mc self = prefix ''q'' (priv_abbreviation self)"

text \<open>
  A class of the external acquisition library, as far as \<^verbatim>\<open>to_botorch\<close> looks at
  it: the parameter names of its constructor, without \<open>self\<close>.
  \<^verbatim>\<open>signature(cls).parameters\<close> are these names, and
  \<^verbatim>\<open>signature(cls.__init__).parameters\<close> are \<open>self\<close> followed by them.
\<close>

record acqf_cls =
  init_params :: "string list"

text \<open>
  Modelled from the spec: \<^verbatim>\<open>filter_attributes\<close> (\<^verbatim>\<open>baybe/utils/basic.py\<close>) is
  not part of the sources at hand. It keeps the attributes of the object whose names
  are parameter names of the callable and drops the others without an error.
\<close>

definition filter_attributes :: "acquisition_function \<Rightarrow> string list \<Rightarrow> (string \<times> pyval) list" where
  "filter_attributes object params =
     List.map_filter
       (\<lambda>p. case map_of (attributes object) p of None \<Rightarrow> None | Some v \<Rightarrow> Some (p, v))
       params"

text \<open>
  \<^verbatim>\<open>train_y.max().item()\<close> on a data frame given by its columns: the maximum of
  every column (not-a-number for a column without entries), and \<^verbatim>\<open>item\<close> raises
  unless there is exactly one column.
\<close>

definition column_max :: "rat list \<Rightarrow> pyval" where
  "column_max col = (if col = [] then PyNaN else PyFloat (Max (set col)))"

definition max_item :: "rat list list \<Rightarrow> pyval result" where
  "max_item df = (case map column_max df of [v] \<Rightarrow> Ok v | _ \<Rightarrow> Raise ValueError)"

text \<open>
  The two calls into the external library that \<^verbatim>\<open>to_botorch\<close> can make, with
  their arguments: \<^verbatim>\<open>acqf_cls(AdapterModel(surrogate), **fields_dict)\<close> for the
  class of the given name, and
  \<^verbatim>\<open>get_acquisition_function(acquisition_function_name=..., model=..., X_observed=..., objective=..., **fields_dict)\<close>.
\<close>

datatype adapter_model = AdapterModel surrogate

datatype mc_objective = IdentityMCObjective

datatype botorch_call =
    AnalyticCall string adapter_model "(string \<times> pyval) list"
  | GetAcquisitionFunction string adapter_model tensor2 mc_objective "(string \<times> pyval) list"

text \<open>
  \<^verbatim>\<open>to_botorch\<close>. The first argument is the namespace \<^verbatim>\<open>botorch.acquisition\<close>,
  looked up by class name. The second is the external library evaluating a call, the
  binding of the arguments included: it returns the acquisition function or raises
  what the call raises (a surrogate that is not trained, a missing or doubly given
  argument). \<^verbatim>\<open>to_botorch\<close> returns its result.
\<close>

definition to_botorch ::
  "(string \<rightharpoonup> acqf_cls) \<Rightarrow> (botorch_call \<Rightarrow> 'a result) \<Rightarrow>
     acquisition_function \<Rightarrow> surrogate \<Rightarrow> tensor2 \<Rightarrow> rat list list \<Rightarrow> 'a result" where
  "to_botorch botorch_acquisition botorch_eval self surrogate train_x train_y =
     (case botorch_acquisition (class_name self) of
        None \<Rightarrow> Raise AttributeError
      | Some cls \<Rightarrow>
         (let fields_dict = filter_attributes self (''self'' # init_params cls)
          in if \<not> is_mc self then
               (case max_item train_y of
                  Raise e \<Rightarrow> Raise e
                | Ok best_f \<Rightarrow>
                    botorch_eval
                      (AnalyticCall (class_name self) (AdapterModel surrogate)
                         (if ''best_f'' \<in> set (init_params cls)
                          then AList.update ''best_f'' best_f fields_dict
                          else fields_dict)))
             else
               botorch_eval
                 (GetAcquisitionFunction (priv_abbreviation self) (AdapterModel surrogate)
                    train_x IdentityMCObjective fields_dict)))"

subsection \<open>The deprecation hook of the structuring\<close>

text \<open>A value to be structured: a bare tag or a dictionary.\<close>

datatype config = Tag string | Dict "(string \<times> pyval) list"

datatype warning = DeprecationWarning string

definition UCB_DEPRECATIONS :: "(string \<times> string) list" where
  "UCB_DEPRECATIONS =
     [(''VarUCB'', ''UpperConfidenceBound''), (''qVarUCB'', ''qUpperConfidenceBound'')]"

definition deprecation_message :: "string \<Rightarrow> string \<Rightarrow> string" where
  "deprecation_message entry replacement =
     ''The use of `'' @ entry @ ''` is deprecated and will be disabled in a '' @
     ''future version. The get the same outcome, use the new '' @
     ''`'' @ replacement @ ''` class instead with a beta of 100.0.''"

text \<open>\<^verbatim>\<open>val if isinstance(val, str) else val["type"]\<close>\<close>

definition entry_of :: "config \<Rightarrow> pyval result" where
  "entry_of val =
     (case val of
        Tag s \<Rightarrow> Ok (PyStr s)
      | Dict d \<Rightarrow> (case map_of d ''type'' of None \<Rightarrow> Raise KeyError | Some e \<Rightarrow> Ok e))"

text \<open>The membership test and lookup in \<^verbatim>\<open>UCB_DEPRECATIONS\<close>.\<close>

definition deprecated_replacement :: "pyval \<Rightarrow> string option" where
  "deprecated_replacement entry =
     (case entry of PyStr nm \<Rightarrow> map_of UCB_DEPRECATIONS nm | _ \<Rightarrow> None)"

text \<open>
  \<^verbatim>\<open>_add_deprecation_hook(hook)\<close> returns \<^verbatim>\<open>added_deprecation_hook\<close>; the result
  is what the wrapped hook returns together with the warnings the wrapper emitted.
\<close>

definition add_deprecation_hook ::
  "(config \<Rightarrow> 'c \<Rightarrow> 'r) \<Rightarrow> config \<Rightarrow> 'c \<Rightarrow> 'r result \<times> warning list" where
  "add_deprecation_hook hook val cls =
     (case entry_of val of
        Raise e \<Rightarrow> (Raise e, [])
      | Ok entry \<Rightarrow>
         (case deprecated_replacement entry of
            Some replacement \<Rightarrow>
              (Ok (hook (Dict [(''type'', PyStr replacement), (''beta'', PyFloat 100)]) cls),
               [DeprecationWarning
                  (deprecation_message (case entry of PyStr nm \<Rightarrow> nm | _ \<Rightarrow> []) replacement)])
          | None \<Rightarrow> (Ok (hook val cls), [])))"

section \<open>Properties of the surrogate\<close>

subsection \<open>Auxiliary facts\<close>

lemma single_ohe_parameter_iff:
  "single_ohe_parameter ps \<longleftrightarrow> (\<exists>nm. ps = [CategoricalParameter nm OHE])"
  by (induction ps rule: single_ohe_parameter.induct) simp_all

lemma searchspace_matches_iff:
  "searchspace_matches so \<longleftrightarrow>
     (\<exists>ss nm. so = Some ss \<and> parameters ss = [CategoricalParameter nm OHE])"
  by (simp add: searchspace_matches_def single_ohe_parameter_iff split: option.splits)

lemma priv_fit_raise_unchanged:
  "fst (priv_fit pos neg x y s) = Raise e \<Longrightarrow> snd (priv_fit pos neg x y s) = s"
  by (simp add: priv_fit_def Let_def split: if_splits result.splits)

lemma mul_mask_not_incompatible:
  "mul_mask x m \<noteq> Raise IncompatibleSearchSpaceError"
  by (simp add: mul_mask_def broadcast2_def split: result.splits)

lemma mul_mask_same_length:
  "length (rows x) = length m \<Longrightarrow>
   mul_mask x m = Ok (x\<lparr>rows := map2 (\<lambda>r b. map (\<lambda>v. v * b) r) (rows x) m\<rparr>)"
  by (simp add: mul_mask_def broadcast2_def)








subsection \<open>Sufficient statistics\<close>






subsection \<open>The structural check of the search space\<close>

text \<open>
  Claim C6. \<open>_fit\<close> raises \<open>IncompatibleSearchSpaceError\<close> if and only if the search
  space of the surrogate is not spanned by exactly one categorical parameter with
  one-hot encoding; in particular it does for a search space with two categorical
  parameters, whatever their encodings.
\<close>

theorem fit_incompatible_searchspace:
  "(fst (priv_fit pos neg x y s) = Raise IncompatibleSearchSpaceError \<longleftrightarrow>
      \<not> (\<exists>ss nm. priv_searchspace s = Some ss \<and>
                 parameters ss = [CategoricalParameter nm OHE])) \<and>
   (priv_searchspace s = Some ss' \<and>
    parameters ss' = [CategoricalParameter a e1, CategoricalParameter b e2] \<longrightarrow>
      fst (priv_fit pos neg x y s) = Raise IncompatibleSearchSpaceError)"
  using mul_mask_not_incompatible
  by (auto simp add: priv_fit_def Let_def searchspace_matches_iff split: result.splits)

theorem fit_incompatible_searchspace_witness:
  "fst (priv_fit 1 0 \<lparr>n_cols = 2, rows = [[1, 0]]\<rparr> [1]
          ((new_surrogate default_prior)
             \<lparr>priv_searchspace := Some \<lparr>parameters =
                [CategoricalParameter ''a'' OHE, CategoricalParameter ''b'' OHE]\<rparr>\<rparr>))
     = Raise IncompatibleSearchSpaceError \<and>
   fst (priv_fit 1 0 \<lparr>n_cols = 2, rows = [[1, 0]]\<rparr> [1]
          ((new_surrogate default_prior)
             \<lparr>priv_searchspace := Some \<lparr>parameters = [CategoricalParameter ''a'' OHE]\<rparr>\<rparr>))
     \<noteq> Raise IncompatibleSearchSpaceError"
  using fit_incompatible_searchspace
    [of 1 0 "\<lparr>n_cols = 2, rows = [[1, 0]]\<rparr>" "[1]"
        "(new_surrogate default_prior)
           \<lparr>priv_searchspace := Some \<lparr>parameters =
              [CategoricalParameter ''a'' OHE, CategoricalParameter ''b'' OHE]\<rparr>\<rparr>"
        "\<lparr>parameters = [CategoricalParameter ''a'' OHE, CategoricalParameter ''b'' OHE]\<rparr>"
        "''a''" OHE "''b''" OHE]
    fit_incompatible_searchspace
    [of 1 0 "\<lparr>n_cols = 2, rows = [[1, 0]]\<rparr>" "[1]"
        "(new_surrogate default_prior)
           \<lparr>priv_searchspace := Some \<lparr>parameters = [CategoricalParameter ''a'' OHE]\<rparr>\<rparr>"]
  by simp

subsection \<open>Atomicity of a failing fit\<close>

text \<open>
  Claim C10. When \<open>_fit\<close> raises \<open>IncompatibleSearchSpaceError\<close>, the surrogate after
  the call is the surrogate before the call; in particular its sufficient statistics
  are unchanged: an untrained surrogate stays untrained and a trained one keeps its
  counts.
\<close>

theorem fit_atomic_on_incompatible:
  assumes "fst (priv_fit pos neg x y s) = Raise IncompatibleSearchSpaceError"
  shows "snd (priv_fit pos neg x y s) = s \<and>
         priv_win_lose_counts (snd (priv_fit pos neg x y s)) = priv_win_lose_counts s"
  using priv_fit_raise_unchanged [OF assms] by simp

theorem fit_atomic_on_incompatible_witness:
  "fst (priv_fit 1 0 \<lparr>n_cols = 2, rows = [[1, 0]]\<rparr> [1]
          \<lparr>prior = default_prior,
           priv_searchspace = Some \<lparr>parameters = [TaskParameter ''t'']\<rparr>,
           priv_win_lose_counts = Some [[5, 0], [2, 0]]\<rparr>)
     = Raise IncompatibleSearchSpaceError \<and>
   priv_win_lose_counts
     (snd (priv_fit 1 0 \<lparr>n_cols = 2, rows = [[1, 0]]\<rparr> [1]
          \<lparr>prior = default_prior,
           priv_searchspace = Some \<lparr>parameters = [TaskParameter ''t'']\<rparr>,
           priv_win_lose_counts = Some [[5, 0], [2, 0]]\<rparr>))
     = Some [[5, 0], [2, 0]]"
proof -
  let ?s = "\<lparr>prior = default_prior,
             priv_searchspace = Some \<lparr>parameters = [TaskParameter ''t'']\<rparr>,
             priv_win_lose_counts = Some [[5, 0], [2, 0]]\<rparr>"
  have r: "fst (priv_fit 1 0 \<lparr>n_cols = 2, rows = [[1, 0]]\<rparr> [1] ?s)
             = Raise IncompatibleSearchSpaceError"
    by (simp add: priv_fit_def searchspace_matches_def)
  from fit_atomic_on_incompatible [OF r] r show ?thesis by simp
qed

subsection \<open>Posterior parameters\<close>

lemma priv_fit_counts_shape:
  assumes "fst (priv_fit pos neg x y s) = Ok ()"
  shows "\<exists>wins losses.
           priv_win_lose_counts (snd (priv_fit pos neg x y s)) = Some [wins, losses] \<and>
           length wins = length losses"
  using assms
  by (auto simp add: priv_fit_def Let_def mul_mask_def sum_axis0_def
      split: if_splits result.splits)

lemma posterior_beta_parameters_trained:
  "priv_win_lose_counts s = Some [wins, losses] \<Longrightarrow>
   priv_posterior_beta_parameters s =
     Ok [map (\<lambda>c. of_int c + alpha (prior s)) wins, map (\<lambda>c. of_int c + beta (prior s)) losses]"
  by (simp add: priv_posterior_beta_parameters_def broadcast2_def to_torch_def)

lemma posterior_parameter_positive:
  fixes p :: rat
  shows "0 < p \<Longrightarrow> 0 \<le> c \<Longrightarrow> 0 < of_int c + p"
  by (simp add: add_nonneg_pos)

text \<open>
  Claim C2. For every trained surrogate (the counts are a table of a row of wins and a
  row of losses, the only shape \<open>_fit\<close> stores), the posterior beta parameters are the
  counts plus the pseudo-counts of the prior, the first added to every win count and
  the second to every loss count; and for a valid prior (both shape parameters
  positive) and counts that are not negative, every resulting parameter of every arm
  is greater than zero.
\<close>

theorem conjugate_update_parameters:
  assumes "priv_win_lose_counts s = Some [wins, losses]"
  shows "priv_posterior_beta_parameters s =
           Ok [map (\<lambda>c. of_int c + alpha (prior s)) wins,
               map (\<lambda>c. of_int c + beta (prior s)) losses] \<and>
         (valid_prior (prior s) \<and> (\<forall>c\<in>set wins \<union> set losses. 0 \<le> c) \<longrightarrow>
            (\<forall>v\<in>set (map (\<lambda>c. of_int c + alpha (prior s)) wins) \<union>
                  set (map (\<lambda>c. of_int c + beta (prior s)) losses). 0 < v))"
  using posterior_beta_parameters_trained [OF assms]
  by (auto simp add: valid_prior_def posterior_parameter_positive)

text \<open>Wins 5 and 0, losses 2 and 0, under the uniform prior.\<close>

theorem conjugate_update_parameters_witness:
  "valid_prior default_prior \<and>
   priv_posterior_beta_parameters
     \<lparr>prior = default_prior, priv_searchspace = None,
      priv_win_lose_counts = Some [[5, 0], [2, 0]]\<rparr>
   = Ok [[6, 1], [3, 1]]"
  using conjugate_update_parameters
    [of "\<lparr>prior = default_prior, priv_searchspace = None,
          priv_win_lose_counts = Some [[5, 0], [2, 0]]\<rparr>" "[5, 0]" "[2, 0]"]
  by (simp add: default_prior_def valid_prior_def)

lemma Beta_init_not_untrained: "Beta_init c1 c0 \<noteq> Raise ModelNotTrainedError"
  by (simp add: Beta_init_def broadcast2_def)

lemma Beta_init_positive:
  assumes "length c1 = length c0" and "c1 \<noteq> []"
    and "list_all (\<lambda>v. 0 < v) c1" and "list_all (\<lambda>v. 0 < v) c0"
  shows "Beta_init c1 c0 = Ok (Beta c1 c0)"
proof -
  have "list_all (\<lambda>(a, b). 0 < a \<and> 0 < b) (zip c1 c0)"
    using assms(3,4) by (auto simp add: list_all_iff dest: set_zip_leftD set_zip_rightD)
  moreover have "zip c1 c0 \<noteq> []"
    using assms(1,2) by (cases c1; cases c0) simp_all
  ultimately show ?thesis
    using assms(1) by (simp add: Beta_init_def broadcast2_def)
qed

text \<open>
  The maximum a posteriori of a trained surrogate with at least one arm and a valid
  prior is whatever the external library returns as the mode of the beta distribution
  with these parameters.
\<close>

lemma maximum_a_posteriori_delegates:
  assumes "priv_win_lose_counts s = Some [wins, losses]"
    and "length wins = length losses" and "wins \<noteq> []"
    and "valid_prior (prior s)" and "\<forall>c\<in>set wins \<union> set losses. 0 \<le> c"
  shows "maximum_a_posteriori_per_arm mode s =
           Ok (mode (Beta (map (\<lambda>c. of_int c + alpha (prior s)) wins)
                          (map (\<lambda>c. of_int c + beta (prior s)) losses)))"
proof -
  have "list_all (\<lambda>v. 0 < v) (map (\<lambda>c. of_int c + alpha (prior s)) wins)"
    "list_all (\<lambda>v. 0 < v) (map (\<lambda>c. of_int c + beta (prior s)) losses)"
    using assms(4,5)
    by (auto simp add: list_all_iff valid_prior_def intro!: posterior_parameter_positive)
  with assms(2,3)
  have "Beta_init (map (\<lambda>c. of_int c + alpha (prior s)) wins)
          (map (\<lambda>c. of_int c + beta (prior s)) losses)
        = Ok (Beta (map (\<lambda>c. of_int c + alpha (prior s)) wins)
                   (map (\<lambda>c. of_int c + beta (prior s)) losses))"
    by (intro Beta_init_positive) simp_all
  then show ?thesis
    by (simp add: maximum_a_posteriori_per_arm_def posterior_beta_parameters_trained [OF assms(1)])
qed

subsection \<open>Fitting again\<close>

lemma priv_fit_overwrites:
  assumes "priv_searchspace s' = priv_searchspace s" and "prior s' = prior s"
    and "fst (priv_fit pos neg x y s) = Ok ()"
  shows "fst (priv_fit pos neg x y s') = Ok () \<and>
         snd (priv_fit pos neg x y s') = snd (priv_fit pos neg x y s)"
  using assms
  by (auto simp add: priv_fit_def Let_def split: if_splits result.splits)

lemma priv_fit_valid_ok:
  assumes "searchspace_matches (priv_searchspace s)" and "valid_training pos neg x y"
  shows "fst (priv_fit pos neg x y s) = Ok ()"
    and "priv_searchspace (snd (priv_fit pos neg x y s)) = priv_searchspace s"
    and "prior (snd (priv_fit pos neg x y s)) = prior s"
  using assms
  by (simp_all add: priv_fit_def valid_training_def mul_mask_same_length eq_scalar_def)

text \<open>
  Claim C4. For every surrogate whose search space passes the structural check and
  every pair of valid training tables A and B, \<open>_fit\<close> on A and then on B returns
  normally both times and leaves the sufficient statistics that \<open>_fit\<close> on B alone
  leaves on a freshly constructed surrogate with the same prior (and the same search
  space): fitting again overwrites, it does not accumulate.
\<close>

theorem refit_overwrites:
  assumes "searchspace_matches (priv_searchspace s)"
    and "valid_training pos neg xa ya"
    and "valid_training pos neg xb yb"
  shows "fst (priv_fit pos neg xa ya s) = Ok () \<and>
         fst (priv_fit pos neg xb yb (snd (priv_fit pos neg xa ya s))) = Ok () \<and>
         fst (priv_fit pos neg xb yb
                ((new_surrogate (prior s))\<lparr>priv_searchspace := priv_searchspace s\<rparr>)) = Ok () \<and>
         priv_win_lose_counts (snd (priv_fit pos neg xb yb (snd (priv_fit pos neg xa ya s)))) =
         priv_win_lose_counts
           (snd (priv_fit pos neg xb yb
                   ((new_surrogate (prior s))\<lparr>priv_searchspace := priv_searchspace s\<rparr>)))"
proof -
  let ?s1 = "snd (priv_fit pos neg xa ya s)"
  let ?fresh = "(new_surrogate (prior s))\<lparr>priv_searchspace := priv_searchspace s\<rparr>"
  note a = priv_fit_valid_ok [OF assms(1) assms(2)]
  have m1: "searchspace_matches (priv_searchspace ?s1)"
    using a(2) assms(1) by simp
  note b = priv_fit_valid_ok [OF m1 assms(3)]
  have "priv_searchspace ?fresh = priv_searchspace ?s1" "prior ?fresh = prior ?s1"
    using a by (simp_all add: new_surrogate_def)
  from priv_fit_overwrites [OF this b(1)] a(1) b(1) show ?thesis by simp
qed

text \<open>
  Table A has three rows, table B one win for arm 1: after A and then B the counts are
  those of B alone.
\<close>

theorem refit_overwrites_witness:
  "priv_win_lose_counts
     (snd (priv_fit 1 0 \<lparr>n_cols = 2, rows = [[0, 1]]\<rparr> [1]
        (snd (priv_fit 1 0 \<lparr>n_cols = 2, rows = [[1, 0], [0, 1], [1, 0]]\<rparr> [1, 0, 0]
           ((new_surrogate default_prior)
              \<lparr>priv_searchspace := Some \<lparr>parameters = [CategoricalParameter ''arm'' OHE]\<rparr>\<rparr>)))))
   = Some [[0, 1], [0, 0]] \<and>
   priv_win_lose_counts
     (snd (priv_fit 1 0 \<lparr>n_cols = 2, rows = [[0, 1]]\<rparr> [1]
           ((new_surrogate default_prior)
              \<lparr>priv_searchspace := Some \<lparr>parameters = [CategoricalParameter ''arm'' OHE]\<rparr>\<rparr>)))
   = Some [[0, 1], [0, 0]]"
proof -
  let ?s = "(new_surrogate default_prior)
              \<lparr>priv_searchspace := Some \<lparr>parameters = [CategoricalParameter ''arm'' OHE]\<rparr>\<rparr>"
  have m: "searchspace_matches (priv_searchspace ?s)"
    by (simp add: searchspace_matches_def)
  have va: "valid_training 1 0 \<lparr>n_cols = 2, rows = [[1, 0], [0, 1], [1, 0]]\<rparr> [1, 0, 0]"
    by (simp add: valid_training_def wf_tensor2_def one_hot_def)
  have vb: "valid_training 1 0 \<lparr>n_cols = 2, rows = [[0, 1]]\<rparr> [1]"
    by (simp add: valid_training_def wf_tensor2_def one_hot_def)
  have fresh: "(new_surrogate (prior ?s))\<lparr>priv_searchspace := priv_searchspace ?s\<rparr> = ?s"
    by (simp add: new_surrogate_def)
  have alone: "priv_win_lose_counts (snd (priv_fit 1 0 \<lparr>n_cols = 2, rows = [[0, 1]]\<rparr> [1] ?s))
      = Some [[0, 1], [0, 0]]"
    by (simp add: priv_fit_def searchspace_matches_def mul_mask_def broadcast2_def eq_scalar_def
        sum_axis0_def to_int_def int32_def new_surrogate_def upt_rec)
  from refit_overwrites [OF m va vb] fresh alone show ?thesis by simp
qed

subsection \<open>Queries before training\<close>

lemma broadcast2_not_untrained: "broadcast2 f xs ys \<noteq> Raise ModelNotTrainedError"
  by (simp add: broadcast2_def)

lemma posterior_untrained_iff:
  "priv_posterior s c = Raise ModelNotTrainedError \<longleftrightarrow> priv_win_lose_counts s = None"
proof
  assume "priv_win_lose_counts s = None"
  then show "priv_posterior s c = Raise ModelNotTrainedError"
    by (simp add: priv_posterior_def priv_posterior_beta_parameters_def)
next
  assume r: "priv_posterior s c = Raise ModelNotTrainedError"
  show "priv_win_lose_counts s = None"
  proof (rule ccontr)
    assume "priv_win_lose_counts s \<noteq> None"
    then obtain counts where "priv_win_lose_counts s = Some counts" by auto
    then have "priv_posterior_beta_parameters s \<noteq> Raise ModelNotTrainedError"
      by (simp add: priv_posterior_beta_parameters_def broadcast2_not_untrained)
    with r show False
      by (auto simp add: priv_posterior_def argmax_last_def index_rows_def
          Beta_init_not_untrained split: result.splits list.splits if_splits)
  qed
qed

lemma map_untrained_iff:
  "maximum_a_posteriori_per_arm mode s = Raise ModelNotTrainedError \<longleftrightarrow>
     priv_win_lose_counts s = None"
proof
  assume "priv_win_lose_counts s = None"
  then show "maximum_a_posteriori_per_arm mode s = Raise ModelNotTrainedError"
    by (simp add: maximum_a_posteriori_per_arm_def priv_posterior_beta_parameters_def)
next
  assume r: "maximum_a_posteriori_per_arm mode s = Raise ModelNotTrainedError"
  show "priv_win_lose_counts s = None"
  proof (rule ccontr)
    assume "priv_win_lose_counts s \<noteq> None"
    then obtain counts where "priv_win_lose_counts s = Some counts" by auto
    then have "priv_posterior_beta_parameters s \<noteq> Raise ModelNotTrainedError"
      by (simp add: priv_posterior_beta_parameters_def broadcast2_not_untrained)
    with r show False
      by (auto simp add: maximum_a_posteriori_per_arm_def Beta_init_not_untrained
          split: result.splits list.splits if_splits)
  qed
qed

text \<open>
  Claim C5. \<open>_posterior\<close> and \<open>maximum_a_posteriori_per_arm\<close> raise
  \<open>ModelNotTrainedError\<close> exactly when the sufficient statistics are absent. They are
  absent on a freshly constructed surrogate, and a call of \<open>_fit\<close> that does not
  return normally leaves them as they were: on a surrogate on which no fit has
  succeeded both queries raise \<open>ModelNotTrainedError\<close>.
\<close>

theorem model_not_trained_error:
  "(priv_posterior s c = Raise ModelNotTrainedError \<longleftrightarrow> priv_win_lose_counts s = None) \<and>
   (maximum_a_posteriori_per_arm mode s = Raise ModelNotTrainedError \<longleftrightarrow>
      priv_win_lose_counts s = None) \<and>
   priv_win_lose_counts (new_surrogate p) = None \<and>
   (fst (priv_fit pos neg x y s) \<noteq> Ok () \<longrightarrow>
      priv_win_lose_counts (snd (priv_fit pos neg x y s)) = priv_win_lose_counts s)"
proof -
  have "priv_win_lose_counts (snd (priv_fit pos neg x y s)) = priv_win_lose_counts s"
    if "fst (priv_fit pos neg x y s) \<noteq> Ok ()"
  proof -
    from that obtain e where "fst (priv_fit pos neg x y s) = Raise e"
      by (cases "fst (priv_fit pos neg x y s)") auto
    then show ?thesis by (simp add: priv_fit_raise_unchanged)
  qed
  then show ?thesis
    by (simp add: posterior_untrained_iff map_untrained_iff new_surrogate_def)
qed

theorem model_not_trained_error_witness:
  "fst (priv_fit 1 0 \<lparr>n_cols = 2, rows = [[1, 0]]\<rparr> [1] (new_surrogate default_prior)) \<noteq> Ok () \<and>
   priv_posterior
     (snd (priv_fit 1 0 \<lparr>n_cols = 2, rows = [[1, 0]]\<rparr> [1] (new_surrogate default_prior)))
     \<lparr>n_cols = 2, rows = [[1, 0]]\<rparr> = Raise ModelNotTrainedError \<and>
   maximum_a_posteriori_per_arm concentration1
     (snd (priv_fit 1 0 \<lparr>n_cols = 2, rows = [[1, 0]]\<rparr> [1] (new_surrogate default_prior)))
     = Raise ModelNotTrainedError"
proof -
  let ?s = "new_surrogate default_prior"
  let ?x = "\<lparr>n_cols = 2, rows = [[1, 0]]\<rparr>"
  let ?s' = "snd (priv_fit 1 0 ?x [1] ?s)"
  have f: "fst (priv_fit 1 0 ?x [1] ?s) \<noteq> Ok ()"
    by (simp add: priv_fit_def searchspace_matches_def new_surrogate_def)
  from model_not_trained_error [of ?s ?x concentration1 default_prior 1 0 ?x "[1]"] f
  have "priv_win_lose_counts ?s' = None" by simp
  with model_not_trained_error [of ?s' ?x concentration1 default_prior 1 0 ?x "[1]"] f
  show ?thesis by simp
qed

subsection \<open>Candidates of another width\<close>





section \<open>Properties of the acquisition functions\<close>

subsection \<open>Construction of the external acquisition function\<close>

lemma map_of_filter_attributes:
  "map_of (filter_attributes obj ps) k = (if k \<in> set ps then map_of (attributes obj) k else None)"
  by (induction ps) (auto simp add: filter_attributes_def map_filter_simps split: option.splits)

lemma filter_attributes_cong:
  "\<forall>p\<in>set ps. map_of (attributes obj') p = map_of (attributes obj) p \<Longrightarrow>
   filter_attributes obj' ps = filter_attributes obj ps"
  by (induction ps) (auto simp add: filter_attributes_def map_filter_simps split: option.splits)

lemma max_item_single: "col \<noteq> [] \<Longrightarrow> max_item [col] = Ok (PyFloat (Max (set col)))"
  by (simp add: max_item_def column_max_def)

text \<open>
  Claim C8. When the class of the acquisition function is found in the external
  library, \<open>to_botorch\<close> makes the call of the Monte-Carlo factory exactly when the
  abbreviation starts with \<open>q\<close> (the call made is what \<open>to_botorch\<close> returns when
  the library hands the call back) and returns what that call returns or raises. On the
  analytic branch, for a training outcome frame of one column with at least one entry,
  it returns what the call of the class returns or raises, and it passes \<open>best_f\<close>,
  the maximum of the column, exactly when \<open>best_f\<close> is a parameter of the target
  class. On both branches the other keyword arguments are the attributes of the object
  whose names are parameters of the target constructor. Every other attribute is
  dropped without an error: two objects of the same class that differ only in such
  attributes lead to the same call and the same outcome, so an unrecognized field
  never makes the construction fail.
\<close>

theorem to_botorch_dispatch:
  assumes "botorch_acquisition (class_name self) = Some cls"
  shows
    "((\<exists>m x ob kw. to_botorch botorch_acquisition Ok self surrogate train_x train_y =
          Ok (GetAcquisitionFunction (priv_abbreviation self) m x ob kw)) \<longleftrightarrow>
        prefix ''q'' (priv_abbreviation self)) \<and>
     (prefix ''q'' (priv_abbreviation self) \<longrightarrow>
        (\<exists>kw. to_botorch botorch_acquisition botorch_eval self surrogate train_x train_y =
                 botorch_eval
                   (GetAcquisitionFunction (priv_abbreviation self) (AdapterModel surrogate)
                      train_x IdentityMCObjective kw) \<and>
              (\<forall>k. map_of kw k =
                 (if k \<in> set (''self'' # init_params cls)
                  then map_of (attributes self) k else None)))) \<and>
     (\<not> prefix ''q'' (priv_abbreviation self) \<and> train_y = [col] \<and> col \<noteq> [] \<longrightarrow>
        (\<exists>kw. to_botorch botorch_acquisition botorch_eval self surrogate train_x train_y =
                 botorch_eval (AnalyticCall (class_name self) (AdapterModel surrogate) kw) \<and>
              map_of kw ''best_f'' =
                (if ''best_f'' \<in> set (init_params cls)
                 then Some (PyFloat (Max (set col))) else None) \<and>
              (\<forall>k. k \<noteq> ''best_f'' \<longrightarrow>
                 map_of kw k =
                   (if k \<in> set (''self'' # init_params cls)
                    then map_of (attributes self) k else None)))) \<and>
     (class_name self' = class_name self \<and> priv_abbreviation self' = priv_abbreviation self \<and>
      (\<forall>p\<in>set (''self'' # init_params cls).
          map_of (attributes self') p = map_of (attributes self) p) \<longrightarrow>
        to_botorch botorch_acquisition botorch_eval self' surrogate train_x train_y =
        to_botorch botorch_acquisition botorch_eval self surrogate train_x train_y)"
proof -
  have trace: "(\<exists>m x ob kw. to_botorch botorch_acquisition Ok self surrogate train_x train_y =
          Ok (GetAcquisitionFunction (priv_abbreviation self) m x ob kw)) \<longleftrightarrow>
        prefix ''q'' (priv_abbreviation self)"
    using assms
    by (simp add: to_botorch_def is_mc_def Let_def split: result.splits)
  have mc: "\<exists>kw. to_botorch botorch_acquisition botorch_eval self surrogate train_x train_y =
                 botorch_eval
                   (GetAcquisitionFunction (priv_abbreviation self) (AdapterModel surrogate)
                      train_x IdentityMCObjective kw) \<and>
              (\<forall>k. map_of kw k =
                 (if k \<in> set (''self'' # init_params cls)
                  then map_of (attributes self) k else None))"
    if "prefix ''q'' (priv_abbreviation self)"
  proof (rule exI [of _ "filter_attributes self (''self'' # init_params cls)"])
    show "to_botorch botorch_acquisition botorch_eval self surrogate train_x train_y =
            botorch_eval
              (GetAcquisitionFunction (priv_abbreviation self) (AdapterModel surrogate)
                 train_x IdentityMCObjective
                 (filter_attributes self (''self'' # init_params cls))) \<and>
          (\<forall>k. map_of (filter_attributes self (''self'' # init_params cls)) k =
             (if k \<in> set (''self'' # init_params cls)
              then map_of (attributes self) k else None))"
      using assms that
      by (simp add: to_botorch_def is_mc_def Let_def map_of_filter_attributes)
  qed
  have an: "\<exists>kw. to_botorch botorch_acquisition botorch_eval self surrogate train_x train_y =
                 botorch_eval (AnalyticCall (class_name self) (AdapterModel surrogate) kw) \<and>
              map_of kw ''best_f'' =
                (if ''best_f'' \<in> set (init_params cls)
                 then Some (PyFloat (Max (set col))) else None) \<and>
              (\<forall>k. k \<noteq> ''best_f'' \<longrightarrow>
                 map_of kw k =
                   (if k \<in> set (''self'' # init_params cls)
                    then map_of (attributes self) k else None))"
    if "\<not> prefix ''q'' (priv_abbreviation self)" "train_y = [col]" "col \<noteq> []"
  proof -
    let ?fields = "filter_attributes self (''self'' # init_params cls)"
    let ?kw = "if ''best_f'' \<in> set (init_params cls)
               then AList.update ''best_f'' (PyFloat (Max (set col))) ?fields else ?fields"
    have call: "to_botorch botorch_acquisition botorch_eval self surrogate train_x train_y =
            botorch_eval (AnalyticCall (class_name self) (AdapterModel surrogate) ?kw)"
      using assms that by (simp add: to_botorch_def is_mc_def Let_def max_item_single)
    have best: "map_of ?kw ''best_f'' =
                (if ''best_f'' \<in> set (init_params cls)
                 then Some (PyFloat (Max (set col))) else None)"
      by (simp add: map_of_filter_attributes update_conv')
    have others: "\<forall>k. k \<noteq> ''best_f'' \<longrightarrow>
                 map_of ?kw k =
                   (if k \<in> set (''self'' # init_params cls)
                    then map_of (attributes self) k else None)"
      by (simp add: map_of_filter_attributes update_conv')
    from call best others show ?thesis by blast
  qed
  have inv: "to_botorch botorch_acquisition botorch_eval self' surrogate train_x train_y =
        to_botorch botorch_acquisition botorch_eval self surrogate train_x train_y"
    if "class_name self' = class_name self" "priv_abbreviation self' = priv_abbreviation self"
      "\<forall>p\<in>set (''self'' # init_params cls).
          map_of (attributes self') p = map_of (attributes self) p"
  proof -
    have "filter_attributes self' (''self'' # init_params cls) =
          filter_attributes self (''self'' # init_params cls)"
      by (rule filter_attributes_cong [OF that(3)])
    with assms that(1,2) show ?thesis
      by (simp add: to_botorch_def is_mc_def Let_def split: result.splits)
  qed
  from trace mc an inv show ?thesis by blast
qed

text \<open>
  An external library whose analytic constructor returns the names of the keyword
  arguments it was given, and whose factory raises for a surrogate that is not trained.
  The extra field of the object changes nothing.
\<close>

theorem to_botorch_dispatch_witness:
  "to_botorch
     [''ExpectedImprovement'' \<mapsto>
        \<lparr>init_params = [''model'', ''best_f'', ''posterior_transform'', ''maximize'']\<rparr>]
     (\<lambda>call. case call of
        AnalyticCall n m kw \<Rightarrow> Ok kw
      | GetAcquisitionFunction a m x ob kw \<Rightarrow> Raise ModelNotTrainedError)
     \<lparr>class_name = ''ExpectedImprovement'', priv_abbreviation = ''EI'',
      attributes = [(''extra'', PyFloat 7), (''maximize'', PyBool True)]\<rparr>
     (new_surrogate default_prior) \<lparr>n_cols = 1, rows = [[0], [1], [0]]\<rparr> [[1, 3, 2]]
   = Ok [(''maximize'', PyBool True), (''best_f'', PyFloat 3)] \<and>
   to_botorch
     [''qUpperConfidenceBound'' \<mapsto> \<lparr>init_params = [''model'', ''beta'', ''sampler'']\<rparr>]
     (\<lambda>call. case call of
        AnalyticCall n m kw \<Rightarrow> Ok kw
      | GetAcquisitionFunction a m x ob kw \<Rightarrow> Raise ModelNotTrainedError)
     \<lparr>class_name = ''qUpperConfidenceBound'', priv_abbreviation = ''qUCB'',
      attributes = [(''beta'', PyFloat (1 / 5)), (''extra'', PyFloat 7)]\<rparr>
     (new_surrogate default_prior) \<lparr>n_cols = 1, rows = [[0], [1], [0]]\<rparr> [[1, 3, 2]]
   = Raise ModelNotTrainedError"
proof -
  let ?eval = "\<lambda>call. case call of
        AnalyticCall n m kw \<Rightarrow> Ok kw
      | GetAcquisitionFunction a m x ob kw \<Rightarrow> Raise ModelNotTrainedError"
  let ?ei = "\<lparr>class_name = ''ExpectedImprovement'', priv_abbreviation = ''EI'',
              attributes = [(''maximize'', PyBool True)]\<rparr>"
  let ?ei' = "\<lparr>class_name = ''ExpectedImprovement'', priv_abbreviation = ''EI'',
              attributes = [(''extra'', PyFloat 7), (''maximize'', PyBool True)]\<rparr>"
  let ?ei_cls = "\<lparr>init_params = [''model'', ''best_f'', ''posterior_transform'', ''maximize'']\<rparr>"
  let ?ucb = "\<lparr>class_name = ''qUpperConfidenceBound'', priv_abbreviation = ''qUCB'',
               attributes = [(''beta'', PyFloat (1 / 5)), (''extra'', PyFloat 7)]\<rparr>"
  let ?ucb_cls = "\<lparr>init_params = [''model'', ''beta'', ''sampler'']\<rparr>"
  let ?x = "\<lparr>n_cols = 1, rows = [[0], [1], [0]]\<rparr>"
  have r1: "[''ExpectedImprovement'' \<mapsto> ?ei_cls] (class_name ?ei) = Some ?ei_cls" by simp
  have r2: "[''qUpperConfidenceBound'' \<mapsto> ?ucb_cls] (class_name ?ucb) = Some ?ucb_cls" by simp
  have same: "class_name ?ei' = class_name ?ei \<and> priv_abbreviation ?ei' = priv_abbreviation ?ei \<and>
      (\<forall>p\<in>set (''self'' # init_params ?ei_cls).
          map_of (attributes ?ei') p = map_of (attributes ?ei) p)"
    by simp
  have plain: "to_botorch [''ExpectedImprovement'' \<mapsto> ?ei_cls] ?eval ?ei
                 (new_surrogate default_prior) ?x [[1, 3, 2]]
               = Ok [(''maximize'', PyBool True), (''best_f'', PyFloat 3)]"
    by (simp add: to_botorch_def is_mc_def Let_def max_item_def column_max_def
        filter_attributes_def map_filter_simps)
  have a: "to_botorch [''ExpectedImprovement'' \<mapsto> ?ei_cls] ?eval ?ei'
                 (new_surrogate default_prior) ?x [[1, 3, 2]]
               = Ok [(''maximize'', PyBool True), (''best_f'', PyFloat 3)]"
    using to_botorch_dispatch
      [where botorch_acquisition = "[''ExpectedImprovement'' \<mapsto> ?ei_cls]" and self = ?ei
         and cls = ?ei_cls and self' = ?ei' and botorch_eval = ?eval
         and surrogate = "new_surrogate default_prior" and train_x = ?x
         and train_y = "[[1, 3, 2]]", OF r1] same plain
    by simp
  have q2: "prefix ''q'' (priv_abbreviation ?ucb)" by simp
  from to_botorch_dispatch
      [where botorch_acquisition = "[''qUpperConfidenceBound'' \<mapsto> ?ucb_cls]" and self = ?ucb
         and cls = ?ucb_cls and botorch_eval = ?eval
         and surrogate = "new_surrogate default_prior" and train_x = ?x
         and train_y = "[[1, 3, 2]]", OF r2] q2
  obtain kw where
    "to_botorch [''qUpperConfidenceBound'' \<mapsto> ?ucb_cls] ?eval ?ucb
        (new_surrogate default_prior) ?x [[1, 3, 2]]
      = ?eval (GetAcquisitionFunction ''qUCB'' (AdapterModel (new_surrogate default_prior))
                  ?x IdentityMCObjective kw)"
    by auto
  then have b: "to_botorch [''qUpperConfidenceBound'' \<mapsto> ?ucb_cls] ?eval ?ucb
        (new_surrogate default_prior) ?x [[1, 3, 2]] = Raise ModelNotTrainedError"
    by simp
  from a b show ?thesis by (rule conjI)
qed

subsection \<open>Deprecated names\<close>

lemma deprecated_replacement_VarUCB:
  "deprecated_replacement (PyStr ''VarUCB'') = Some ''UpperConfidenceBound''"
  "deprecated_replacement (PyStr ''qVarUCB'') = Some ''qUpperConfidenceBound''"
  by (simp_all add: deprecated_replacement_def UCB_DEPRECATIONS_def)

lemma deprecated_replacement_modern:
  "deprecated_replacement (PyStr ''UpperConfidenceBound'') = None"
  "deprecated_replacement (PyStr ''qUpperConfidenceBound'') = None"
  by (simp_all add: deprecated_replacement_def UCB_DEPRECATIONS_def)

text \<open>
  Claim C9. Structuring a value tagged with a deprecated name (\<open>VarUCB\<close> or
  \<open>qVarUCB\<close>, as a bare tag or as the \<open>type\<close> entry of a dictionary) returns what
  the wrapped hook returns on the dictionary of the replacement name
  (\<open>UpperConfidenceBound\<close> or \<open>qUpperConfidenceBound\<close>) with \<open>beta = 100.0\<close>, which is
  also what structuring that dictionary directly returns; the wrapper emits exactly one
  deprecation warning for the deprecated value and none for the replacement; and the
  wrapped hook, which does all other validation, only ever sees the rewritten value.
\<close>

theorem deprecated_tag_remapped:
  assumes "(old, new) \<in> set UCB_DEPRECATIONS"
    and "val = Tag old \<or> (\<exists>d. val = Dict d \<and> map_of d ''type'' = Some (PyStr old))"
  shows "add_deprecation_hook hook val cls =
           (Ok (hook (Dict [(''type'', PyStr new), (''beta'', PyFloat 100)]) cls),
            [DeprecationWarning (deprecation_message old new)]) \<and>
         add_deprecation_hook hook (Dict [(''type'', PyStr new), (''beta'', PyFloat 100)]) cls =
           (Ok (hook (Dict [(''type'', PyStr new), (''beta'', PyFloat 100)]) cls), [])"
proof -
  from assms(1) have cases: "old = ''VarUCB'' \<and> new = ''UpperConfidenceBound'' \<or>
      old = ''qVarUCB'' \<and> new = ''qUpperConfidenceBound''"
    by (auto simp add: UCB_DEPRECATIONS_def)
  then have r: "deprecated_replacement (PyStr old) = Some new"
    and m: "deprecated_replacement (PyStr new) = None"
    by (auto simp add: deprecated_replacement_VarUCB deprecated_replacement_modern)
  from assms(2) have e: "entry_of val = Ok (PyStr old)"
    by (auto simp add: entry_of_def)
  have e': "entry_of (Dict [(''type'', PyStr new), (''beta'', PyFloat 100)]) = Ok (PyStr new)"
    by (simp add: entry_of_def)
  show ?thesis
    by (simp add: add_deprecation_hook_def e e' r m)
qed

theorem deprecated_tag_remapped_witness:
  "add_deprecation_hook (\<lambda>v c. v)
     (Dict [(''type'', PyStr ''VarUCB''), (''beta'', PyFloat (1 / 2)), (''extra'', PyNone)]) ()
   = (Ok (Dict [(''type'', PyStr ''UpperConfidenceBound''), (''beta'', PyFloat 100)]),
      [DeprecationWarning (deprecation_message ''VarUCB'' ''UpperConfidenceBound'')]) \<and>
   add_deprecation_hook (\<lambda>v c. v) (Tag ''qVarUCB'') ()
   = (Ok (Dict [(''type'', PyStr ''qUpperConfidenceBound''), (''beta'', PyFloat 100)]),
      [DeprecationWarning (deprecation_message ''qVarUCB'' ''qUpperConfidenceBound'')])"
proof -
  have m1: "(''VarUCB'', ''UpperConfidenceBound'') \<in> set UCB_DEPRECATIONS"
    and m2: "(''qVarUCB'', ''qUpperConfidenceBound'') \<in> set UCB_DEPRECATIONS"
    by (simp_all add: UCB_DEPRECATIONS_def)
  have v1: "Dict [(''type'', PyStr ''VarUCB''), (''beta'', PyFloat (1 / 2)), (''extra'', PyNone)]
              = Tag ''VarUCB'' \<or>
            (\<exists>d. Dict [(''type'', PyStr ''VarUCB''), (''beta'', PyFloat (1 / 2)), (''extra'', PyNone)]
                   = Dict d \<and> map_of d ''type'' = Some (PyStr ''VarUCB''))"
    by simp
  have v2: "Tag ''qVarUCB'' = Tag ''qVarUCB'' \<or>
            (\<exists>d. Tag ''qVarUCB'' = Dict d \<and> map_of d ''type'' = Some (PyStr ''qVarUCB''))"
    by simp
  from deprecated_tag_remapped [OF m1 v1, of "\<lambda>v c. v" "()"]
       deprecated_tag_remapped [OF m2 v2, of "\<lambda>v c. v" "()"]
  show ?thesis by simp
qed

end
